theory Spec2Isabelle
  imports Main "HOL-Library.Word"
begin

section \<open>Data model of the wallpaper gallery (src/main.py)\<close>

type_synonym url = string
type_synonym bytes = "8 word list"

text \<open>A caught Python exception, carrying \<open>str(e)\<close>.\<close>

datatype exn = Exn string

text \<open>
  The texts handed to \<open>show_message\<close>. The source's literals are Chinese; each
  constructor stands for one literal, a string argument is the interpolated \<open>str(e)\<close>:
  \<^item> \<open>MaxSelection\<close>: "at most 10 images can be selected" (line 227);
  \<^item> \<open>Generating\<close>: "generating wallpaper..." (line 247);
  \<^item> \<open>WallpaperSet\<close>: "wallpaper set" (line 263);
  \<^item> \<open>WallpaperFailed\<close>: "setting the wallpaper failed: ..." (line 265);
  \<^item> \<open>CollageDone\<close>: "collage wallpaper generated" (line 279);
  \<^item> \<open>CollageFailed\<close>: "collage generation failed: ..." (line 281);
  \<^item> \<open>LoadFailed\<close>: "loading images failed: ..." (line 171);
  \<^item> \<open>SysWallpaperFailed\<close>: "setting the system wallpaper failed: ..." (line 297).
\<close>

datatype notice =
    MaxSelection
  | Generating
  | WallpaperSet
  | WallpaperFailed string
  | CollageDone
  | CollageFailed string
  | LoadFailed string
  | SysWallpaperFailed string

text \<open>
  A thumbnail label in the grid layout: its \<open>url\<close> attribute, its cell and the border
  its style sheet draws (grey 2px when unselected, green 3px when selected).
\<close>

datatype border = Grey | Green

record thumb =
  turl :: url
  trow :: nat
  tcol :: nat
  tborder :: border

text \<open>
  An \<open>ImageLoader\<close> thread. \<open>phase\<close> is where its \<open>run\<close> method stands and
  \<open>emitted\<close> the signals it has emitted so far, oldest first.
\<close>

datatype pixmap = Pixmap bytes

datatype signal =
    Loaded thumb pixmap url
  | InvalidImageData url
  | LoadingFailed url string

datatype phase = Started | Requesting | Finished

record loader =
  label :: thumb
  lurl :: url
  is_running :: bool
  phase :: phase
  emitted :: "signal list"

text \<open>The HTTP requests issued on the user-interface thread.\<close>

datatype request = Listing int | Download url

text \<open>
  The fields of \<open>MainWindow\<close> together with what its methods change outside the
  object: the notices shown, the requests sent, the files written and the desktop
  background applied.
\<close>

record state =
  selected_images :: "url list"
  excluded_urls :: "url list"
  current_page :: int
  loaders :: "loader list"
  current_batch :: "url list"
  grid :: "thumb list"
  btn_generate_enabled :: bool
  wallpaper_timer :: "nat option"
  messages :: "(notice \<times> nat) list"
  requested :: "request list"
  files :: "string \<rightharpoonup> bytes"
  desktop :: "string option"

section \<open>Selection\<close>

definition show_message :: "notice \<Rightarrow> nat \<Rightarrow> state \<Rightarrow> state" where
  "show_message text duration s = s\<lparr>messages := messages s @ [(text, duration)]\<rparr>"

text \<open>The loop of \<open>update_selection_ui\<close>: the first widget with this url is restyled.\<close>

fun restyle :: "url \<Rightarrow> border \<Rightarrow> thumb list \<Rightarrow> thumb list" where
  "restyle u b [] = []"
| "restyle u b (w # ws) =
     (if turl w = u then w\<lparr>tborder := b\<rparr> # ws else w # restyle u b ws)"

definition update_selection_ui :: "url \<Rightarrow> state \<Rightarrow> state" where
  "update_selection_ui u s =
     s\<lparr>grid := restyle u (if u \<in> set (selected_images s) then Green else Grey) (grid s)\<rparr>"

text \<open>\<open>list.remove\<close> deletes the first occurrence: \<open>remove1\<close>.\<close>

definition toggle_selection :: "state \<Rightarrow> url \<Rightarrow> state" where
  "toggle_selection s u =
     (if u \<in> set (excluded_urls s) then s
      else if u \<in> set (selected_images s) then
        (let s1 = update_selection_ui u (s\<lparr>selected_images := remove1 u (selected_images s)\<rparr>)
         in s1\<lparr>btn_generate_enabled := (0 < length (selected_images s1))\<rparr>)
      else if 10 \<le> length (selected_images s) then show_message MaxSelection 2000 s
      else
        (let s1 = update_selection_ui u (s\<lparr>selected_images := selected_images s @ [u]\<rparr>)
         in s1\<lparr>btn_generate_enabled := (0 < length (selected_images s1))\<rparr>))"

text \<open>A sequence of clicks on thumbnails.\<close>

definition toggles :: "state \<Rightarrow> url list \<Rightarrow> state" where
  "toggles s us = foldl toggle_selection s us"

text \<open>The calls on which the capacity warning is due.\<close>

definition at_capacity :: "state \<Rightarrow> url \<Rightarrow> bool" where
  "at_capacity s u =
     (u \<notin> set (excluded_urls s) \<and> u \<notin> set (selected_images s) \<and> length (selected_images s) = 10)"

text \<open>The invariant of the selection: no duplicates, at most ten entries.\<close>

definition sel_inv :: "state \<Rightarrow> bool" where
  "sel_inv s = (distinct (selected_images s) \<and> length (selected_images s) \<le> 10)"

section \<open>The world outside the program\<close>

text \<open>
  A decoded photo (a PIL image) with its pixel data left abstract, and the collage
  canvas: the blank image of \<open>Image.new\<close> with the pastes made on it, oldest first,
  each with the upper left corner it was pasted at.
\<close>

record 'p image =
  width :: nat
  height :: nat
  pixels :: 'p

record 'p canvas =
  cwidth :: nat
  cheight :: nat
  pasted :: "('p image \<times> nat \<times> nat) list"


datatype platform = Linux | Win32 | Darwin | OtherPlatform

text \<open>
  What the libraries and the network answer:
  \<^item> \<open>fetch_listing page\<close>: lines 162 to 167, the listing request for that page, its
    JSON body and the \<open>download_url\<close> of every item, or the exception one of them raised;
  \<^item> \<open>get_raw u\<close>: \<open>requests.get(u, stream=True, timeout=20).raw\<close>;
  \<^item> \<open>get_content u\<close>: \<open>requests.get(u, timeout=10)\<close>, \<open>raise_for_status\<close>, \<open>.content\<close>;
  \<^item> \<open>image_open\<close>: \<open>Image.open\<close>, with the decoding errors the library raises only
    when the pixel data is first read;
  \<^item> \<open>shrink\<close>: the resampling \<open>Image.thumbnail\<close> does on an image that exceeds the box;
  \<^item> \<open>jpeg_photo\<close>: the bytes \<open>save\<close> writes for a decoded photo under a file name
    ending in \<open>.jpg\<close>, or the exception it raises, as it does for a photo in a mode
    that JPEG cannot store (a PNG with transparency or with a palette);
  \<^item> \<open>save_leftover\<close>: what such a failed \<open>save\<close> leaves at its path, given what was
    there before: the library has opened the file for writing by then, so an older file
    has lost its content, and a file that did not exist is empty or removed again;
  \<^item> \<open>jpeg_collage\<close>: the bytes \<open>save\<close> writes for the canvas, whose mode is RGB;
  \<^item> \<open>load_from_data\<close>: whether \<open>QPixmap.loadFromData\<close> accepts the bytes;
  \<^item> \<open>platform\<close>, \<open>abspath\<close>, \<open>os_background\<close>: \<open>sys.platform\<close>, \<open>os.path.abspath\<close>
    and the platform's call that sets the desktop background.
\<close>

record 'p env =
  fetch_listing :: "int \<Rightarrow> exn + url list"
  get_raw :: "url \<Rightarrow> exn + bytes"
  get_content :: "url \<Rightarrow> exn + bytes"
  image_open :: "bytes \<Rightarrow> exn + 'p image"
  shrink :: "nat \<times> nat \<Rightarrow> 'p image \<Rightarrow> 'p image"
  jpeg_photo :: "'p image \<Rightarrow> exn + bytes"
  save_leftover :: "bytes option \<Rightarrow> bytes option"
  jpeg_collage :: "'p canvas \<Rightarrow> bytes"
  load_from_data :: "bytes \<Rightarrow> bool"
  platform :: platform
  abspath :: "string \<Rightarrow> string"
  os_background :: "string \<Rightarrow> exn + unit"

section \<open>ImageLoader\<close>

definition new_loader :: "thumb \<Rightarrow> url \<Rightarrow> loader" where
  "new_loader lbl u = \<lparr>label = lbl, lurl = u, is_running = True, phase = Started, emitted = []\<rparr>"

definition emit :: "signal \<Rightarrow> loader \<Rightarrow> loader" where
  "emit sig l = l\<lparr>emitted := emitted l @ [sig]\<rparr>"

text \<open>
  \<open>run\<close> blocks once, in \<open>requests.get\<close>. \<open>run_enter\<close> is the part before the call
  (lines 24 to 28), \<open>run_resume\<close> the part after it has returned or raised (lines 28
  to 38); \<open>stop\<close> runs on the user-interface thread and may come before, between or after
  them. \<open>quit\<close> ends an event loop that \<open>run\<close> never starts, and \<open>wait(1000)\<close> only
  waits: neither changes a field.
\<close>

definition run_enter :: "loader \<Rightarrow> loader" where
  "run_enter l =
     (if phase l \<noteq> Started then l
      else if \<not> is_running l then l\<lparr>phase := Finished\<rparr>
      else l\<lparr>phase := Requesting\<rparr>)"

definition run_resume :: "'p env \<Rightarrow> loader \<Rightarrow> loader" where
  "run_resume env l =
     (if phase l \<noteq> Requesting then l
      else case get_content env (lurl l) of
          Inl (Exn e) \<Rightarrow> emit (LoadingFailed (lurl l) e) (l\<lparr>phase := Finished\<rparr>)
        | Inr content \<Rightarrow>
            if load_from_data env content \<and> is_running l
            then emit (Loaded (label l) (Pixmap content) (lurl l)) (l\<lparr>phase := Finished\<rparr>)
            else emit (InvalidImageData (lurl l)) (l\<lparr>phase := Finished\<rparr>))"

definition stop :: "loader \<Rightarrow> loader" where
  "stop l = l\<lparr>is_running := False\<rparr>"

datatype event = Enter | Resume | Stop

fun step :: "'p env \<Rightarrow> loader \<Rightarrow> event \<Rightarrow> loader" where
  "step env l Enter = run_enter l"
| "step env l Resume = run_resume env l"
| "step env l Stop = stop l"

definition schedule :: "'p env \<Rightarrow> loader \<Rightarrow> event list \<Rightarrow> loader" where
  "schedule env l evs = foldl (step env) l evs"

section \<open>Batches\<close>

text \<open>
  \<open>clear_current_batch\<close> stops every loader and then forgets them, takes every widget
  out of the grid and empties the batch.
\<close>

definition clear_current_batch :: "state \<Rightarrow> state" where
  "clear_current_batch s = s\<lparr>loaders := [], grid := [], current_batch := []\<rparr>"

definition add_image_thumbnail :: "state \<Rightarrow> nat \<times> url \<Rightarrow> state" where
  "add_image_thumbnail s pu =
     (let thumbnail = \<lparr>turl = snd pu, trow = fst pu div 3, tcol = fst pu mod 3, tborder = Grey\<rparr>
      in s\<lparr>loaders := loaders s @ [new_loader thumbnail (snd pu)],
           grid := grid s @ [thumbnail]\<rparr>)"

definition load_images :: "'p env \<Rightarrow> state \<Rightarrow> state" where
  "load_images env s =
     (let s1 = s\<lparr>requested := requested s @ [Listing (current_page s)]\<rparr>
      in case fetch_listing env (current_page s) of
          Inl (Exn e) \<Rightarrow> show_message (LoadFailed e) 3000 s1
        | Inr image_urls \<Rightarrow>
            foldl add_image_thumbnail (s1\<lparr>current_batch := image_urls\<rparr>) (enumerate 0 image_urls))"

text \<open>\<open>clock\<close> is \<open>time.time()\<close> in whole seconds.\<close>

definition load_new_batch :: "'p env \<Rightarrow> nat \<Rightarrow> state \<Rightarrow> state" where
  "load_new_batch env clock s =
     load_images env ((clear_current_batch s)\<lparr>current_page := int (clock mod 100)\<rparr>)"

definition load_more_images :: "'p env \<Rightarrow> state \<Rightarrow> state" where
  "load_more_images env s = load_images env (s\<lparr>current_page := current_page s + 1\<rparr>)"

section \<open>Wallpaper generation\<close>

definition set_system_wallpaper :: "'p env \<Rightarrow> string \<Rightarrow> state \<Rightarrow> state" where
  "set_system_wallpaper env path s =
     (let p = abspath env path
      in if platform env = OtherPlatform then s
         else case os_background env p of
             Inl (Exn e) \<Rightarrow> show_message (SysWallpaperFailed e) 3000 s
           | Inr _ \<Rightarrow> s\<lparr>desktop := Some p\<rparr>)"

definition set_single_wallpaper :: "'p env \<Rightarrow> url \<Rightarrow> state \<Rightarrow> state" where
  "set_single_wallpaper env u s =
     (let s1 = s\<lparr>requested := requested s @ [Download u]\<rparr>
      in case get_raw env u of
          Inl (Exn e) \<Rightarrow> show_message (WallpaperFailed e) 3000 s1
        | Inr raw \<Rightarrow>
            (case image_open env raw of
                Inl (Exn e) \<Rightarrow> show_message (WallpaperFailed e) 3000 s1
              | Inr img \<Rightarrow>
                  (case jpeg_photo env img of
                      Inl (Exn e) \<Rightarrow>
                        show_message (WallpaperFailed e) 3000
                          (s1\<lparr>files := (files s1)(''current_wallpaper.jpg'' :=
                                        save_leftover env (files s1 ''current_wallpaper.jpg''))\<rparr>)
                    | Inr encoded \<Rightarrow>
                        show_message WallpaperSet 2000
                          (set_system_wallpaper env ''current_wallpaper.jpg''
                            (s1\<lparr>files := (files s1)(''current_wallpaper.jpg'' \<mapsto> encoded)\<rparr>)))))"

definition image_new :: "nat \<times> nat \<Rightarrow> 'p canvas" where
  "image_new sz = \<lparr>cwidth = fst sz, cheight = snd sz, pasted = []\<rparr>"

text \<open>
  \<open>Image.thumbnail(box)\<close> of the imaging library reduces an image in place until it
  fits the box, keeping its aspect ratio. It never enlarges: an image that already fits
  is left as it is.
\<close>

definition thumbnail :: "'p env \<Rightarrow> nat \<times> nat \<Rightarrow> 'p image \<Rightarrow> 'p image" where
  "thumbnail env box img =
     (if width img \<le> fst box \<and> height img \<le> snd box then img else shrink env box img)"

definition paste :: "'p canvas \<Rightarrow> 'p image \<Rightarrow> nat \<times> nat \<Rightarrow> 'p canvas" where
  "paste collage img pos = collage\<lparr>pasted := pasted collage @ [(img, pos)]\<rparr>"

text \<open>
  The loop of \<open>create_collage\<close> over \<open>enumerate(urls[:9])\<close>. It returns the downloads it
  asked for and either the exception that ended it or the canvas.
\<close>

fun collage_loop ::
  "'p env \<Rightarrow> (nat \<times> url) list \<Rightarrow> 'p canvas \<Rightarrow> request list \<times> (exn + 'p canvas)" where
  "collage_loop env [] collage = ([], Inr collage)"
| "collage_loop env ((index, u) # rest) collage =
     (case get_raw env u of
         Inl e \<Rightarrow> ([Download u], Inl e)
       | Inr raw \<Rightarrow>
           (case image_open env raw of
               Inl e \<Rightarrow> ([Download u], Inl e)
             | Inr img \<Rightarrow>
                 (let r = collage_loop env rest
                            (paste collage (thumbnail env (640, 360) img)
                               (640 * (index mod 3), 360 * (index div 3)))
                  in (Download u # fst r, snd r))))"

definition composed :: "'p env \<Rightarrow> url list \<Rightarrow> request list \<times> (exn + 'p canvas)" where
  "composed env urls = collage_loop env (enumerate 0 (take 9 urls)) (image_new (1920, 1080))"

text \<open>
  Download and decoding of one url, the two calls that open the loop body (lines 272
  and 273) and \<open>set_single_wallpaper\<close> (lines 259 and 260).
\<close>

definition fetch :: "'p env \<Rightarrow> url \<Rightarrow> exn + 'p image" where
  "fetch env u = (case get_raw env u of Inl e \<Rightarrow> Inl e | Inr raw \<Rightarrow> image_open env raw)"

definition create_collage :: "'p env \<Rightarrow> url list \<Rightarrow> state \<Rightarrow> state" where
  "create_collage env urls s =
     (let r = composed env urls;
          s1 = s\<lparr>requested := requested s @ fst r\<rparr>
      in case snd r of
          Inl (Exn e) \<Rightarrow> show_message (CollageFailed e) 3000 s1
        | Inr collage \<Rightarrow>
            show_message CollageDone 2000
              (set_system_wallpaper env ''wallpaper_collage.jpg''
                (s1\<lparr>files := (files s1)(''wallpaper_collage.jpg'' \<mapsto> jpeg_collage env collage)\<rparr>)))"

definition generate_wallpaper :: "'p env \<Rightarrow> state \<Rightarrow> state" where
  "generate_wallpaper env s =
     (let s1 = show_message Generating 2000 s;
          s2 = (if length (selected_images s1) = 1
                then set_single_wallpaper env (selected_images s1 ! 0) s1
                else create_collage env (selected_images s1) s1)
      in s2\<lparr>wallpaper_timer := Some 3600000\<rparr>)"

text \<open>The slot of the timer's \<open>timeout\<close> signal.\<close>

definition update_wallpaper :: "'p env \<Rightarrow> state \<Rightarrow> state" where
  "update_wallpaper env s = (if selected_images s \<noteq> [] then generate_wallpaper env s else s)"

text \<open>A timer that was never started does not fire.\<close>

definition timer_fires :: "'p env \<Rightarrow> state \<Rightarrow> state" where
  "timer_fires env s = (case wallpaper_timer s of None \<Rightarrow> s | Some ms \<Rightarrow> update_wallpaper env s)"

text \<open>A click on the generate button reaches its slot only while the button is enabled.\<close>

definition click_generate :: "'p env \<Rightarrow> state \<Rightarrow> state" where
  "click_generate env s = (if btn_generate_enabled s then generate_wallpaper env s else s)"

section \<open>Start of the program\<close>

text \<open>
  The fields as \<open>__init__\<close> and \<open>init_ui\<close> leave them: a new push button is enabled and
  nothing disables it there; the timer is created and not started. \<open>fs\<close> and \<open>bg\<close> are
  the files and the desktop background found at start.
\<close>

definition fresh :: "(string \<rightharpoonup> bytes) \<Rightarrow> string option \<Rightarrow> state" where
  "fresh fs bg =
     \<lparr>selected_images = [], excluded_urls = [], current_page = 1, loaders = [],
      current_batch = [], grid = [], btn_generate_enabled = True, wallpaper_timer = None,
      messages = [], requested = [], files = fs, desktop = bg\<rparr>"

definition init_window :: "'p env \<Rightarrow> nat \<Rightarrow> (string \<rightharpoonup> bytes) \<Rightarrow> string option \<Rightarrow> state" where
  "init_window env clock fs bg = load_new_batch env clock (fresh fs bg)"

section \<open>Concrete worlds\<close>

text \<open>
  \<open>online\<close>: every download answers the four bytes that open a PNG file, which decode to
  a photo of 100 by 100 pixels; the encoder opens every file with the JPEG marker FF D8.
  \<open>offline\<close>: every request times out. \<open>flaky\<close>: only the listing of page 1 times out.
  \<open>camera\<close>: the url \<open>big\<close> answers the start of a JPEG file, which decodes to a photo
  of 4000 by 3000 pixels. \<open>alpha\<close>: the photos are in a mode that JPEG cannot store.
  In all of them an image that exceeds the box is scaled down by \<open>scale_down\<close>, in
  whole pixels, first to the width and then to the height of the box.
\<close>

definition png :: bytes where
  "png = [137, 80, 78, 71]"


definition scale_down :: "nat \<times> nat \<Rightarrow> 'p image \<Rightarrow> 'p image" where
  "scale_down box img =
     (let w1 = min (width img) (fst box);
          h1 = (if fst box < width img then max (height img * fst box div width img) 1
                else height img);
          w2 = (if snd box < h1 then max (w1 * snd box div h1) 1 else w1);
          h2 = min h1 (snd box)
      in \<lparr>width = w2, height = h2, pixels = pixels img\<rparr>)"

definition online :: "bytes env" where
  "online =
     \<lparr>fetch_listing = (\<lambda>page. Inr [''c'', ''d'']),
      get_raw = (\<lambda>u. Inr png),
      get_content = (\<lambda>u. Inr png),
      image_open = (\<lambda>raw. Inr \<lparr>width = 100, height = 100, pixels = raw\<rparr>),
      shrink = scale_down,
      jpeg_photo = (\<lambda>img. Inr ([255, 216] @ pixels img)),
      save_leftover = (\<lambda>before. case before of None \<Rightarrow> None | Some old \<Rightarrow> Some []),
      jpeg_collage = (\<lambda>c. [255, 216] @ concat (map (\<lambda>l. pixels (fst l)) (pasted c))),
      load_from_data = (\<lambda>raw. True),
      platform = Linux,
      abspath = (\<lambda>p. ''/home/user/'' @ p),
      os_background = (\<lambda>p. Inr ())\<rparr>"

definition offline :: "bytes env" where
  "offline =
     online\<lparr>fetch_listing := (\<lambda>page. Inl (Exn ''timed out'')),
            get_raw := (\<lambda>u. Inl (Exn ''timed out'')),
            get_content := (\<lambda>u. Inl (Exn ''timed out''))\<rparr>"

definition flaky :: "bytes env" where
  "flaky =
     online\<lparr>fetch_listing :=
              (\<lambda>page. if page = 1 then Inl (Exn ''timed out'') else Inr [''c'', ''d''])\<rparr>"


definition alpha :: "bytes env" where
  "alpha = online\<lparr>jpeg_photo := (\<lambda>img. Inl (Exn ''cannot write mode RGBA as JPEG''))\<rparr>"

text \<open>A state with the two thumbnails of a batch in the grid.\<close>

definition browsing :: state where
  "browsing = init_window online 0 Map.empty None"

text \<open>The photo every download of \<open>online\<close> decodes to, and a collage file found on disk.\<close>

definition small :: "bytes image" where
  "small = \<lparr>width = 100, height = 100, pixels = png\<rparr>"

definition old_files :: "string \<rightharpoonup> bytes" where
  "old_files = [''wallpaper_collage.jpg'' \<mapsto> [255, 216, 1, 2, 3]]"



definition old_single :: "string \<rightharpoonup> bytes" where
  "old_single = [''current_wallpaper.jpg'' \<mapsto> [255, 216, 4, 5, 6]]"

text \<open>Ten distinct photo urls, for a full selection.\<close>

definition ten :: "url list" where
  "ten = [''a'', ''b'', ''c'', ''d'', ''e'', ''f'', ''g'', ''h'', ''i'', ''j'']"

section \<open>Properties of the selection\<close>

lemma selected_toggle:
  "selected_images (toggle_selection s u) =
     (if u \<in> set (excluded_urls s) then selected_images s
      else if u \<in> set (selected_images s) then remove1 u (selected_images s)
      else if 10 \<le> length (selected_images s) then selected_images s
      else selected_images s @ [u])"
  by (simp add: toggle_selection_def update_selection_ui_def show_message_def Let_def)

lemma excluded_toggle: "excluded_urls (toggle_selection s u) = excluded_urls s"
  by (simp add: toggle_selection_def update_selection_ui_def show_message_def Let_def)

lemma messages_toggle:
  "messages (toggle_selection s u) =
     (if u \<notin> set (excluded_urls s) \<and> u \<notin> set (selected_images s) \<and> 10 \<le> length (selected_images s)
      then messages s @ [(MaxSelection, 2000)] else messages s)"
  by (simp add: toggle_selection_def update_selection_ui_def show_message_def Let_def)

lemma sel_inv_toggle: "sel_inv s \<Longrightarrow> sel_inv (toggle_selection s u)"
  unfolding sel_inv_def selected_toggle
  by (auto simp: length_remove1)

lemma sel_inv_foldl: "sel_inv s \<Longrightarrow> sel_inv (foldl toggle_selection s us)"
  by (induction us arbitrary: s) (simp_all add: sel_inv_toggle)

lemma sel_inv_toggles: "selected_images s0 = [] \<Longrightarrow> sel_inv (toggles s0 us)"
  unfolding toggles_def by (rule sel_inv_foldl) (simp add: sel_inv_def)

text \<open>
  C1. In every state reached from an empty selection by any sequence of
  \<open>toggle_selection\<close> calls, at most ten urls are selected; the next call shows the
  capacity warning exactly when its url is neither excluded nor selected while ten urls
  are selected, and such a call leaves the selection as it is.
\<close>

theorem toggle_capacity:
  assumes "selected_images s0 = []" and "s = toggles s0 us"
  shows "length (selected_images s) \<le> 10
       \<and> messages (toggle_selection s u) =
           (if at_capacity s u then messages s @ [(MaxSelection, 2000)] else messages s)
       \<and> (at_capacity s u \<longrightarrow> selected_images (toggle_selection s u) = selected_images s)"
proof -
  from assms have inv: "sel_inv s"
    by (simp add: sel_inv_toggles)
  then have len: "length (selected_images s) \<le> 10"
    by (simp add: sel_inv_def)
  then have cap: "at_capacity s u \<longleftrightarrow>
      u \<notin> set (excluded_urls s) \<and> u \<notin> set (selected_images s) \<and> 10 \<le> length (selected_images s)"
    by (auto simp: at_capacity_def)
  have msg: "messages (toggle_selection s u) =
      (if at_capacity s u then messages s @ [(MaxSelection, 2000)] else messages s)"
    unfolding cap by (rule messages_toggle)
  have same: "at_capacity s u \<longrightarrow> selected_images (toggle_selection s u) = selected_images s"
    unfolding cap by (simp add: selected_toggle)
  from len msg same show ?thesis by blast
qed

lemma toggles_distinct:
  "selected_images s = [] \<Longrightarrow> excluded_urls s = [] \<Longrightarrow> distinct us \<Longrightarrow> length us \<le> 10 \<Longrightarrow>
     selected_images (toggles s us) = us \<and> excluded_urls (toggles s us) = []
     \<and> messages (toggles s us) = messages s"
proof (induction us rule: rev_induct)
  case Nil
  then show ?case by (simp add: toggles_def)
next
  case (snoc u us)
  then have "selected_images (toggles s us) = us" "excluded_urls (toggles s us) = []"
    "messages (toggles s us) = messages s" "u \<notin> set us" "\<not> 10 \<le> length us"
    by simp_all
  moreover have "toggles s (us @ [u]) = toggle_selection (toggles s us) u"
    by (simp add: toggles_def)
  ultimately show ?case
    by (simp add: selected_toggle excluded_toggle messages_toggle)
qed

lemma ten_facts: "distinct ten" "length ten = 10" "''k'' \<notin> set ten"
  by (simp_all add: ten_def)

lemma toggles_ten:
  "selected_images (toggles (fresh Map.empty None) ten) = ten"
  "excluded_urls (toggles (fresh Map.empty None) ten) = []"
  "messages (toggles (fresh Map.empty None) ten) = []"
  using toggles_distinct [of "fresh Map.empty None" ten]
  by (simp_all add: ten_facts fresh_def)

theorem toggle_capacity_witness:
  "selected_images (fresh Map.empty None) = []
   \<and> at_capacity (toggles (fresh Map.empty None) ten) ''k''
   \<and> length (selected_images (toggles (fresh Map.empty None) ten)) \<le> 10
   \<and> messages (toggle_selection (toggles (fresh Map.empty None) ten) ''k'') = [(MaxSelection, 2000)]
   \<and> selected_images (toggle_selection (toggles (fresh Map.empty None) ten) ''k'') = ten"
proof -
  have h: "selected_images (fresh Map.empty None) = []"
    by (simp add: fresh_def)
  have c: "at_capacity (toggles (fresh Map.empty None) ten) ''k''"
    by (simp add: at_capacity_def toggles_ten ten_facts)
  show ?thesis
    using h c toggle_capacity [OF h refl, of ten "''k''"]
    by (simp add: toggles_ten)
qed

text \<open>
  C9, as stated, fails on the list the program keeps: a selected url that is toggled
  twice is removed and then appended, so it moves to the end of the selection order.
\<close>

theorem toggle_twice_order_counterexample:
  "selected_images (toggle_selection (toggle_selection (toggles (fresh Map.empty None) [''a'', ''b'']) ''a'') ''a'')
     \<noteq> selected_images (toggles (fresh Map.empty None) [''a'', ''b''])"
  by (simp add: toggles_def fresh_def selected_toggle excluded_toggle)

text \<open>
  C9, amended. On a selection without duplicates and of at most ten urls, toggling the
  same url twice gives back the same set of selected urls, of the same size. The order is
  kept when the url was not selected at first; a url that was selected (and is not
  excluded) ends up last.
\<close>

theorem toggle_twice:
  assumes "sel_inv s"
  shows "set (selected_images (toggle_selection (toggle_selection s u) u)) = set (selected_images s)
       \<and> length (selected_images (toggle_selection (toggle_selection s u) u)) = length (selected_images s)
       \<and> (u \<notin> set (selected_images s) \<longrightarrow>
            selected_images (toggle_selection (toggle_selection s u) u) = selected_images s)
       \<and> (u \<in> set (selected_images s) \<and> u \<notin> set (excluded_urls s) \<longrightarrow>
            selected_images (toggle_selection (toggle_selection s u) u) = remove1 u (selected_images s) @ [u])"
proof -
  from assms have d: "distinct (selected_images s)" and l: "length (selected_images s) \<le> 10"
    by (simp_all add: sel_inv_def)
  show ?thesis
  proof (cases "u \<in> set (excluded_urls s)")
    case True
    then show ?thesis by (simp add: selected_toggle excluded_toggle)
  next
    case ex: False
    show ?thesis
    proof (cases "u \<in> set (selected_images s)")
      case True
      with d l have "\<not> 10 \<le> length (remove1 u (selected_images s))" "u \<notin> set (remove1 u (selected_images s))"
        by (auto simp: length_remove1 dest: length_pos_if_in_set)
      moreover from True have "0 < length (selected_images s)"
        by (rule length_pos_if_in_set)
      moreover from True have "set (remove1 u (selected_images s) @ [u]) = set (selected_images s)"
        using d by auto
      ultimately show ?thesis
        using True ex by (simp add: selected_toggle excluded_toggle length_remove1)
    next
      case False
      with ex show ?thesis
        by (simp add: selected_toggle excluded_toggle remove1_append)
    qed
  qed
qed

theorem toggle_twice_witness:
  "sel_inv (toggles (fresh Map.empty None) [''a'', ''b''])
   \<and> set (selected_images (toggle_selection (toggle_selection (toggles (fresh Map.empty None) [''a'', ''b'']) ''a'') ''a''))
       = set (selected_images (toggles (fresh Map.empty None) [''a'', ''b'']))
   \<and> selected_images (toggle_selection (toggle_selection (toggles (fresh Map.empty None) [''a'', ''b'']) ''a'') ''a'')
       = [''b'', ''a'']"
proof -
  have sel: "selected_images (toggles (fresh Map.empty None) [''a'', ''b'']) = [''a'', ''b'']"
    and exc: "excluded_urls (toggles (fresh Map.empty None) [''a'', ''b'']) = []"
    by (simp_all add: toggles_def fresh_def selected_toggle excluded_toggle)
  have h: "sel_inv (toggles (fresh Map.empty None) [''a'', ''b''])"
    by (simp add: sel_inv_def sel)
  show ?thesis
    using h toggle_twice [OF h, of "''a''"] by (auto simp: sel exc)
qed

section \<open>Properties of the batches\<close>

lemma foldl_add_image_thumbnail:
  "foldl add_image_thumbnail s pus =
     s\<lparr>loaders := loaders s @ map (\<lambda>pu. new_loader \<lparr>turl = snd pu, trow = fst pu div 3, tcol = fst pu mod 3, tborder = Grey\<rparr> (snd pu)) pus,
       grid := grid s @ map (\<lambda>pu. \<lparr>turl = snd pu, trow = fst pu div 3, tcol = fst pu mod 3, tborder = Grey\<rparr>) pus\<rparr>"
  by (induction pus arbitrary: s) (simp_all add: add_image_thumbnail_def Let_def)

lemma load_images_failure:
  "fetch_listing env (current_page s) = Inl (Exn e) \<Longrightarrow>
     load_images env s =
       s\<lparr>requested := requested s @ [Listing (current_page s)],
         messages := messages s @ [(LoadFailed e, 3000)]\<rparr>"
  by (simp add: load_images_def show_message_def Let_def)

lemma load_images_success:
  "fetch_listing env (current_page s) = Inr urls \<Longrightarrow>
     load_images env s =
       s\<lparr>requested := requested s @ [Listing (current_page s)],
         current_batch := urls,
         loaders := loaders s @ map (\<lambda>pu. new_loader \<lparr>turl = snd pu, trow = fst pu div 3, tcol = fst pu mod 3, tborder = Grey\<rparr> (snd pu)) (enumerate 0 urls),
         grid := grid s @ map (\<lambda>pu. \<lparr>turl = snd pu, trow = fst pu div 3, tcol = fst pu mod 3, tborder = Grey\<rparr>) (enumerate 0 urls)\<rparr>"
  by (simp add: load_images_def Let_def foldl_add_image_thumbnail)

lemma browsing_fields:
  "current_batch browsing = [''c'', ''d'']"
  "grid browsing = [\<lparr>turl = ''c'', trow = 0, tcol = 0, tborder = Grey\<rparr>, \<lparr>turl = ''d'', trow = 0, tcol = 1, tborder = Grey\<rparr>]"
  "current_page browsing = 0"
  "messages browsing = []"
  "length (loaders browsing) = 2"
  by (simp_all add: browsing_def init_window_def load_new_batch_def clear_current_batch_def
      fresh_def online_def load_images_success [where urls = "[''c'', ''d'']"] enumerate_eq_zip upt_rec)

text \<open>
  C6, as stated, fails for \<open>load_new_batch\<close>: it clears the grid, the batch and
  the loaders before it asks for the listing, so after a failed request the previous
  batch is gone.
\<close>

theorem listing_failure_clears_counterexample:
  "fetch_listing offline (int (7 mod 100)) = Inl (Exn ''timed out'')
   \<and> grid browsing \<noteq> []
   \<and> grid (load_new_batch offline 7 browsing) = []
   \<and> current_batch (load_new_batch offline 7 browsing) \<noteq> current_batch browsing"
  by (simp add: browsing_fields load_new_batch_def clear_current_batch_def offline_def
      load_images_failure [where e = "''timed out''"])

text \<open>
  C6, amended. When the listing request fails, the notice "loading images failed" is
  shown for 3000 ms and no new thumbnail is added. After a failed request of
  \<open>load_more_images\<close> the grid, the batch and the loaders are as they were, the page
  being one further; after a failed request of \<open>load_new_batch\<close> they are empty, as it
  cleared them before the request. Each of the two holds whatever the other request
  would answer.
\<close>

theorem listing_failure:
  "(fetch_listing env (current_page s + 1) = Inl (Exn e) \<longrightarrow>
      current_page (load_more_images env s) = current_page s + 1
      \<and> grid (load_more_images env s) = grid s
      \<and> current_batch (load_more_images env s) = current_batch s
      \<and> loaders (load_more_images env s) = loaders s
      \<and> messages (load_more_images env s) = messages s @ [(LoadFailed e, 3000)])
   \<and> (fetch_listing env (int (clock mod 100)) = Inl (Exn e') \<longrightarrow>
      grid (load_new_batch env clock s) = []
      \<and> current_batch (load_new_batch env clock s) = []
      \<and> loaders (load_new_batch env clock s) = []
      \<and> messages (load_new_batch env clock s) = messages s @ [(LoadFailed e', 3000)])"
proof (intro conjI impI)
  assume more: "fetch_listing env (current_page s + 1) = Inl (Exn e)"
  have m: "load_more_images env s =
      s\<lparr>current_page := current_page s + 1,
        requested := requested s @ [Listing (current_page s + 1)],
        messages := messages s @ [(LoadFailed e, 3000)]\<rparr>"
    unfolding load_more_images_def using more
    by (simp add: load_images_failure [where e = e])
  show "current_page (load_more_images env s) = current_page s + 1"
    and "grid (load_more_images env s) = grid s"
    and "current_batch (load_more_images env s) = current_batch s"
    and "loaders (load_more_images env s) = loaders s"
    and "messages (load_more_images env s) = messages s @ [(LoadFailed e, 3000)]"
    unfolding m by simp_all
next
  assume new: "fetch_listing env (int (clock mod 100)) = Inl (Exn e')"
  have n: "load_new_batch env clock s =
      s\<lparr>loaders := [], grid := [], current_batch := [],
        current_page := int (clock mod 100),
        requested := requested s @ [Listing (int (clock mod 100))],
        messages := messages s @ [(LoadFailed e', 3000)]\<rparr>"
    unfolding load_new_batch_def clear_current_batch_def using new
    by (simp add: load_images_failure [where e = e'])
  show "grid (load_new_batch env clock s) = []"
    and "current_batch (load_new_batch env clock s) = []"
    and "loaders (load_new_batch env clock s) = []"
    and "messages (load_new_batch env clock s) = messages s @ [(LoadFailed e', 3000)]"
    unfolding n by simp_all
qed

theorem listing_failure_witness:
  "fetch_listing flaky (current_page browsing + 1) = Inl (Exn ''timed out'')
   \<and> fetch_listing flaky (int (7 mod 100)) = Inr [''c'', ''d'']
   \<and> fetch_listing offline (int (7 mod 100)) = Inl (Exn ''timed out'')
   \<and> current_page (load_more_images flaky browsing) = 1
   \<and> grid (load_more_images flaky browsing) = grid browsing
   \<and> current_batch (load_more_images flaky browsing) = [''c'', ''d'']
   \<and> messages (load_more_images flaky browsing) = [(LoadFailed ''timed out'', 3000)]
   \<and> grid (load_new_batch offline 7 browsing) = []
   \<and> current_batch (load_new_batch offline 7 browsing) = []
   \<and> messages (load_new_batch offline 7 browsing) = [(LoadFailed ''timed out'', 3000)]"
proof -
  have h1: "fetch_listing flaky (current_page browsing + 1) = Inl (Exn ''timed out'')"
    by (simp add: flaky_def browsing_fields)
  have h2: "fetch_listing offline (int (7 mod 100)) = Inl (Exn ''timed out'')"
    by (simp add: offline_def)
  have h3: "fetch_listing flaky (int (7 mod 100)) = Inr [''c'', ''d'']"
    by (simp add: flaky_def)
  show ?thesis
    using h1 h2 h3
      listing_failure [of flaky browsing "''timed out''" 7 "''timed out''"]
      listing_failure [of offline browsing "''timed out''" 7 "''timed out''"]
    by (simp add: browsing_fields)
qed

text \<open>
  C7, as stated, fails for the batch: \<open>load_images\<close> assigns the new urls to
  \<open>current_batch\<close>, so the urls of the page before are no longer in it.
\<close>

theorem load_more_replaces_batch_counterexample:
  "fetch_listing online (current_page browsing + 1) = Inr [''c'', ''d'']
   \<and> current_batch browsing = [''c'', ''d'']
   \<and> current_batch (load_more_images online browsing) \<noteq> current_batch browsing @ [''c'', ''d'']"
  by (simp add: browsing_fields load_more_images_def online_def
      load_images_success [where urls = "[''c'', ''d'']"])

text \<open>
  C7, amended. \<open>load_more_images\<close> advances the page by one and, when the listing
  request succeeds, replaces \<open>current_batch\<close> by the urls of the new page, while one
  loader and one thumbnail per new url, in the order of the listing, are appended to the
  loaders and to the grid, the existing loaders and thumbnails staying as they are.
\<close>

theorem load_more:
  "current_page (load_more_images env s) = current_page s + 1
   \<and> (fetch_listing env (current_page s + 1) = Inr urls \<longrightarrow>
      current_batch (load_more_images env s) = urls
      \<and> take (length (loaders s)) (loaders (load_more_images env s)) = loaders s
      \<and> map lurl (drop (length (loaders s)) (loaders (load_more_images env s))) = urls
      \<and> take (length (grid s)) (grid (load_more_images env s)) = grid s
      \<and> map turl (drop (length (grid s)) (grid (load_more_images env s))) = urls)"
proof (intro conjI impI)
  show "current_page (load_more_images env s) = current_page s + 1"
    by (simp add: load_more_images_def load_images_def show_message_def Let_def
        foldl_add_image_thumbnail split: sum.splits exn.splits)
next
  assume ok: "fetch_listing env (current_page s + 1) = Inr urls"
  have l: "map (\<lambda>pu. lurl (new_loader \<lparr>turl = snd pu, trow = fst pu div 3, tcol = fst pu mod 3, tborder = Grey\<rparr> (snd pu))) (enumerate 0 urls) = map snd (enumerate 0 urls)"
    by (simp add: new_loader_def)
  have m: "load_more_images env s =
      s\<lparr>current_page := current_page s + 1,
        requested := requested s @ [Listing (current_page s + 1)],
        current_batch := urls,
        loaders := loaders s @ map (\<lambda>pu. new_loader \<lparr>turl = snd pu, trow = fst pu div 3, tcol = fst pu mod 3, tborder = Grey\<rparr> (snd pu)) (enumerate 0 urls),
        grid := grid s @ map (\<lambda>pu. \<lparr>turl = snd pu, trow = fst pu div 3, tcol = fst pu mod 3, tborder = Grey\<rparr>) (enumerate 0 urls)\<rparr>"
    unfolding load_more_images_def using ok
    by (simp add: load_images_success [where urls = urls])
  show "current_batch (load_more_images env s) = urls"
    and "take (length (loaders s)) (loaders (load_more_images env s)) = loaders s"
    and "take (length (grid s)) (grid (load_more_images env s)) = grid s"
    unfolding m by simp_all
  show "map lurl (drop (length (loaders s)) (loaders (load_more_images env s))) = urls"
    unfolding m by (simp add: comp_def l)
  show "map turl (drop (length (grid s)) (grid (load_more_images env s))) = urls"
    unfolding m by (simp add: comp_def)
qed

theorem load_more_witness:
  "fetch_listing online (current_page browsing + 1) = Inr [''c'', ''d'']
   \<and> current_page (load_more_images online browsing) = 1
   \<and> current_batch (load_more_images online browsing) = [''c'', ''d'']
   \<and> take 2 (grid (load_more_images online browsing)) = grid browsing
   \<and> map turl (drop 2 (grid (load_more_images online browsing))) = [''c'', ''d'']
   \<and> map lurl (drop 2 (loaders (load_more_images online browsing))) = [''c'', ''d'']"
proof -
  have h: "fetch_listing online (current_page browsing + 1) = Inr [''c'', ''d'']"
    by (simp add: online_def)
  have g: "length (grid browsing) = 2" "length (loaders browsing) = 2"
    by (simp_all add: browsing_fields)
  note w = load_more [of online browsing "[''c'', ''d'']", unfolded g]
  show ?thesis
    using h w by (simp add: browsing_fields(3))
qed

section \<open>Properties of the loader\<close>

text \<open>
  C4. A loader that is stopped while its request is in flight still emits a signal
  when the request ends: \<open>error\<close> with "loading failed" when the request raised, and
  \<open>error\<close> with "invalid image data" when it succeeded, because the test that guards
  \<open>loaded\<close> falls through to the \<open>else\<close> branch once \<open>_is_running\<close> is false. The claim
  demands that no callback is invoked after the stop.
\<close>

theorem stop_during_request_emits:
  "emitted (schedule env (new_loader lbl u) [Enter, Stop, Resume]) =
     [case get_content env u of Inl (Exn e) \<Rightarrow> LoadingFailed u e | Inr content \<Rightarrow> InvalidImageData u]"
  by (simp add: schedule_def new_loader_def run_enter_def stop_def run_resume_def emit_def
      split: sum.splits exn.splits)

lemma stop_before_run_silent:
  "emitted (schedule env (new_loader lbl u) [Stop, Enter, Resume]) = []"
  by (simp add: schedule_def new_loader_def run_enter_def stop_def run_resume_def)

lemma no_success_after_stop:
  "\<not> is_running l \<Longrightarrow> emitted l = [] \<Longrightarrow> Loaded lbl px v \<notin> set (emitted (run_resume env l))"
  by (auto simp: run_resume_def emit_def split: sum.splits exn.splits)

section \<open>Properties of the generation\<close>

lemma timer_show_message [simp]: "wallpaper_timer (show_message n d s) = wallpaper_timer s"
  by (simp add: show_message_def)

text \<open>
  C10. Every call of \<open>generate_wallpaper\<close> ends with the timer started at 3600000 ms,
  whatever the single-image or collage path did, since both catch their exceptions. The
  timer's slot \<open>update_wallpaper\<close> calls \<open>generate_wallpaper\<close> when the selection is not
  empty and does nothing otherwise; a call shows at least the notice "generating
  wallpaper", so the notices change exactly when the selection is not empty. After a
  call the timer is running, so its next timeout runs \<open>update_wallpaper\<close>.
\<close>

theorem timer_restarted:
  "wallpaper_timer (generate_wallpaper env s) = Some 3600000
   \<and> update_wallpaper env s = (if selected_images s = [] then s else generate_wallpaper env s)
   \<and> (messages (update_wallpaper env s) = messages s \<longleftrightarrow> selected_images s = [])
   \<and> timer_fires env (generate_wallpaper env s) = update_wallpaper env (generate_wallpaper env s)"
proof -
  have grow: "length (messages s) < length (messages (generate_wallpaper env s))"
    by (auto simp: generate_wallpaper_def set_single_wallpaper_def create_collage_def
        set_system_wallpaper_def show_message_def Let_def split: sum.splits exn.splits)
  then have "messages (generate_wallpaper env s) \<noteq> messages s"
    by auto
  moreover have "wallpaper_timer (generate_wallpaper env s) = Some 3600000"
    by (simp add: generate_wallpaper_def Let_def)
  ultimately show ?thesis
    by (simp add: update_wallpaper_def timer_fires_def)
qed

lemma generate_dispatch:
  "generate_wallpaper env s =
     (if length (selected_images s) = 1
      then set_single_wallpaper env (hd (selected_images s)) (show_message Generating 2000 s)
      else create_collage env (selected_images s) (show_message Generating 2000 s))
     \<lparr>wallpaper_timer := Some 3600000\<rparr>"
  by (cases "selected_images s") (simp_all add: generate_wallpaper_def show_message_def Let_def)

lemma load_images_keeps:
  "selected_images (load_images env s) = selected_images s"
  "btn_generate_enabled (load_images env s) = btn_generate_enabled s"
  "files (load_images env s) = files s"
  by (simp_all add: load_images_def show_message_def Let_def foldl_add_image_thumbnail
      split: sum.splits exn.splits)

lemma init_window_fields:
  "selected_images (init_window env clock fs bg) = []"
  "btn_generate_enabled (init_window env clock fs bg)"
  "files (init_window env clock fs bg) = fs"
  by (simp_all add: init_window_def load_new_batch_def load_images_keeps
      clear_current_batch_def fresh_def)

lemma composed_Nil: "composed env [] = ([], Inr (image_new (1920, 1080)))"
  by (simp add: composed_def)

text \<open>
  C3. Right after the window is built nothing is selected and the generate button is
  enabled: only \<open>toggle_selection\<close> ever disables it. A click then runs
  \<open>generate_wallpaper\<close> on the empty selection, which takes the collage path and writes
  an empty canvas to the collage file. The claim demands that generation cannot run
  with nothing selected.
\<close>

theorem generate_enabled_at_start:
  "selected_images (init_window env clock fs bg) = []
   \<and> btn_generate_enabled (init_window env clock fs bg)
   \<and> click_generate env (init_window env clock fs bg) =
       (create_collage env [] (show_message Generating 2000 (init_window env clock fs bg)))
         \<lparr>wallpaper_timer := Some 3600000\<rparr>
   \<and> files (click_generate env (init_window env clock fs bg)) =
       fs(''wallpaper_collage.jpg'' \<mapsto> jpeg_collage env (image_new (1920, 1080)))"
proof -
  let ?s = "init_window env clock fs bg"
  have g: "click_generate env ?s =
      (create_collage env [] (show_message Generating 2000 ?s))\<lparr>wallpaper_timer := Some 3600000\<rparr>"
    by (simp add: click_generate_def init_window_fields generate_dispatch)
  have f: "files (create_collage env [] (show_message Generating 2000 ?s)) =
      fs(''wallpaper_collage.jpg'' \<mapsto> jpeg_collage env (image_new (1920, 1080)))"
    by (simp add: create_collage_def composed_Nil Let_def show_message_def
        set_system_wallpaper_def init_window_fields split: sum.splits exn.splits)
  show ?thesis
    unfolding g using f by (simp add: init_window_fields)
qed

lemma toggle_sets_button:
  "u \<notin> set (excluded_urls s) \<Longrightarrow> length (selected_images s) < 10 \<Longrightarrow>
     btn_generate_enabled (toggle_selection s u) \<longleftrightarrow> selected_images (toggle_selection s u) \<noteq> []"
  by (simp add: toggle_selection_def update_selection_ui_def Let_def)

section \<open>Properties of the composer\<close>

lemma files_set_system_wallpaper [simp]:
  "files (set_system_wallpaper env path s) = files s"
  by (simp add: set_system_wallpaper_def show_message_def Let_def split: sum.splits exn.splits)

lemma requested_set_system_wallpaper [simp]:
  "requested (set_system_wallpaper env path s) = requested s"
  by (simp add: set_system_wallpaper_def show_message_def Let_def split: sum.splits exn.splits)

text \<open>
  C8, as stated, fails: the downloaded bytes are decoded by \<open>Image.open\<close> and the image
  is encoded again by \<open>save\<close>, as JPEG because of the file name. Here the download is
  the start of a PNG file and the file written starts with the JPEG marker.
\<close>

theorem single_reencoded_counterexample:
  "get_raw online ''u'' = Inr png
   \<and> files (set_single_wallpaper online ''u'' (fresh Map.empty None)) ''current_wallpaper.jpg''
       = Some [255, 216, 137, 80, 78, 71]
   \<and> files (set_single_wallpaper online ''u'' (fresh Map.empty None)) ''current_wallpaper.jpg''
       \<noteq> Some png"
  by (simp add: set_single_wallpaper_def online_def png_def fresh_def show_message_def Let_def)

text \<open>
  C8, amended. \<open>set_single_wallpaper\<close> downloads the url and decodes the answer. When
  download, decoding and JPEG encoding succeed, the file \<open>current_wallpaper.jpg\<close> gets
  the bytes the encoder gives for the decoded image, replacing what was there, no other
  file changes and the notice "wallpaper set" is shown last. When the encoding fails,
  the file is left as the failed \<open>save\<close> leaves it and no other file changes; when
  download or decoding fails, no file changes. In both cases the desktop background
  stays and the notice "setting the wallpaper failed" is shown for 3000 ms.
\<close>

theorem single_wallpaper:
  "requested (set_single_wallpaper env u s) = requested s @ [Download u]
   \<and> (fetch env u = Inr img \<and> jpeg_photo env img = Inr encoded \<longrightarrow>
      files (set_single_wallpaper env u s) = (files s)(''current_wallpaper.jpg'' \<mapsto> encoded)
      \<and> last (messages (set_single_wallpaper env u s)) = (WallpaperSet, 2000))
   \<and> (fetch env u = Inr img \<and> jpeg_photo env img = Inl (Exn e) \<longrightarrow>
      files (set_single_wallpaper env u s) =
        (files s)(''current_wallpaper.jpg'' := save_leftover env (files s ''current_wallpaper.jpg''))
      \<and> desktop (set_single_wallpaper env u s) = desktop s
      \<and> messages (set_single_wallpaper env u s) = messages s @ [(WallpaperFailed e, 3000)])
   \<and> (fetch env u = Inl (Exn e) \<longrightarrow>
      files (set_single_wallpaper env u s) = files s
      \<and> desktop (set_single_wallpaper env u s) = desktop s
      \<and> messages (set_single_wallpaper env u s) = messages s @ [(WallpaperFailed e, 3000)])"
proof (intro conjI impI)
  show "requested (set_single_wallpaper env u s) = requested s @ [Download u]"
    by (simp add: set_single_wallpaper_def show_message_def Let_def split: sum.splits exn.splits)
next
  assume "fetch env u = Inr img \<and> jpeg_photo env img = Inr encoded"
  then obtain raw where "get_raw env u = Inr raw" "image_open env raw = Inr img"
    "jpeg_photo env img = Inr encoded"
    by (auto simp: fetch_def split: sum.splits)
  then show "files (set_single_wallpaper env u s) = (files s)(''current_wallpaper.jpg'' \<mapsto> encoded)"
    and "last (messages (set_single_wallpaper env u s)) = (WallpaperSet, 2000)"
    by (simp_all add: set_single_wallpaper_def show_message_def Let_def)
next
  assume "fetch env u = Inr img \<and> jpeg_photo env img = Inl (Exn e)"
  then obtain raw where "get_raw env u = Inr raw" "image_open env raw = Inr img"
    "jpeg_photo env img = Inl (Exn e)"
    by (auto simp: fetch_def split: sum.splits)
  then show "files (set_single_wallpaper env u s) =
      (files s)(''current_wallpaper.jpg'' := save_leftover env (files s ''current_wallpaper.jpg''))"
    and "desktop (set_single_wallpaper env u s) = desktop s"
    and "messages (set_single_wallpaper env u s) = messages s @ [(WallpaperFailed e, 3000)]"
    by (simp_all add: set_single_wallpaper_def show_message_def Let_def)
next
  assume f: "fetch env u = Inl (Exn e)"
  then show "files (set_single_wallpaper env u s) = files s"
    and "desktop (set_single_wallpaper env u s) = desktop s"
    and "messages (set_single_wallpaper env u s) = messages s @ [(WallpaperFailed e, 3000)]"
    by (auto simp: fetch_def set_single_wallpaper_def show_message_def Let_def split: sum.splits)
qed

theorem single_wallpaper_witness:
  "fetch online ''u'' = Inr small \<and> jpeg_photo online small = Inr [255, 216, 137, 80, 78, 71]
   \<and> fetch alpha ''u'' = Inr small
   \<and> jpeg_photo alpha small = Inl (Exn ''cannot write mode RGBA as JPEG'')
   \<and> fetch offline ''u'' = Inl (Exn ''timed out'')
   \<and> requested (set_single_wallpaper online ''u'' (fresh old_single None)) = [Download ''u'']
   \<and> files (set_single_wallpaper online ''u'' (fresh old_single None)) ''current_wallpaper.jpg''
       = Some [255, 216, 137, 80, 78, 71]
   \<and> files (set_single_wallpaper alpha ''u'' (fresh old_single None)) ''current_wallpaper.jpg''
       = Some []
   \<and> messages (set_single_wallpaper alpha ''u'' (fresh old_single None))
       = [(WallpaperFailed ''cannot write mode RGBA as JPEG'', 3000)]
   \<and> files (set_single_wallpaper offline ''u'' (fresh old_single None)) ''current_wallpaper.jpg''
       = Some [255, 216, 4, 5, 6]
   \<and> messages (set_single_wallpaper offline ''u'' (fresh old_single None))
       = [(WallpaperFailed ''timed out'', 3000)]"
proof -
  have h1: "fetch online ''u'' = Inr small \<and> jpeg_photo online small = Inr [255, 216, 137, 80, 78, 71]"
    by (simp add: fetch_def online_def small_def png_def)
  have h2: "fetch alpha ''u'' = Inr small
      \<and> jpeg_photo alpha small = Inl (Exn ''cannot write mode RGBA as JPEG'')"
    by (simp add: fetch_def alpha_def online_def small_def)
  have h3: "fetch offline ''u'' = Inl (Exn ''timed out'')"
    by (simp add: fetch_def offline_def)
  have l: "save_leftover alpha (Some [255, 216, 4, 5, 6]) = Some []"
    by (simp add: alpha_def online_def)
  show ?thesis
    using h1 h2 h3 l
      single_wallpaper [of online "''u''" "fresh old_single None" small "[255, 216, 137, 80, 78, 71]"]
      single_wallpaper [of alpha "''u''" "fresh old_single None" small _ "''cannot write mode RGBA as JPEG''"]
      single_wallpaper [of offline "''u''" "fresh old_single None" _ _ "''timed out''"]
    by (simp add: fresh_def old_single_def)
qed


text \<open>One failure ends the loop with an exception.\<close>

lemma collage_loop_failure:
  "u \<in> set us \<Longrightarrow> fetch env u = Inl e \<Longrightarrow> \<exists>e'. snd (collage_loop env (enumerate n us) c) = Inl e'"
proof (induction us arbitrary: n c)
  case Nil
  then show ?case by simp
next
  case (Cons v us)
  show ?case
  proof (cases "fetch env v")
    case (Inl e')
    then show ?thesis
      by (auto simp: fetch_def split: sum.splits)
  next
    case (Inr img)
    with Cons.prems have "u \<in> set us" by auto
    from Cons.IH [OF this Cons.prems(2)] Inr show ?thesis
      by (auto simp: fetch_def Let_def split: sum.splits)
  qed
qed







text \<open>
  C5. When the download or the decoding of one of the first nine urls fails,
  \<open>create_collage\<close> writes no file at all (the collage file keeps its content), leaves
  the desktop background alone and shows the notice "collage generation failed" for
  3000 ms: the canvas is saved only after the loop has ended without an exception.
\<close>

theorem collage_failure:
  assumes "u \<in> set (take 9 urls)" and "fetch env u = Inl e"
  shows "files (create_collage env urls s) = files s
       \<and> desktop (create_collage env urls s) = desktop s
       \<and> (\<exists>e'. messages (create_collage env urls s) = messages s @ [(CollageFailed e', 3000)])"
proof -
  from collage_loop_failure [OF assms] obtain e'
    where "snd (composed env urls) = Inl (Exn e')"
    unfolding composed_def by (metis exn.exhaust)
  then show ?thesis
    by (simp add: create_collage_def Let_def show_message_def)
qed

theorem collage_failure_witness:
  "''b'' \<in> set (take 9 [''a'', ''b''])
   \<and> fetch offline ''b'' = Inl (Exn ''timed out'')
   \<and> files (create_collage offline [''a'', ''b''] (fresh old_files None)) ''wallpaper_collage.jpg''
       = Some [255, 216, 1, 2, 3]
   \<and> messages (create_collage offline [''a'', ''b''] (fresh old_files None)) =
       [(CollageFailed ''timed out'', 3000)]"
proof -
  have h1: "''b'' \<in> set (take 9 [''a'', ''b''])"
    by simp
  have h2: "fetch offline ''b'' = Inl (Exn ''timed out'')"
    by (simp add: fetch_def offline_def)
  have m: "messages (create_collage offline [''a'', ''b''] (fresh old_files None)) =
      [(CollageFailed ''timed out'', 3000)]"
    by (simp add: create_collage_def composed_def offline_def fresh_def show_message_def Let_def)
  show ?thesis
    using h1 h2 m collage_failure [OF h1 h2, of "fresh old_files None"]
    by (simp add: fresh_def old_files_def)
qed

end
